theory Spec2Isabelle
  imports Main
begin

section \<open>Python strings\<close>

text \<open>
  A Python \<open>str\<close> is a sequence of code points. The model uses \<open>string\<close>, one
  \<open>char\<close> per code point, which covers the code points below 256. \<open>str.strip()\<close>
  removes the characters for which \<open>str.isspace()\<close> holds; below 256 these are
  9..13, 28..32, 133 and 160.
\<close>

definition isspace :: "char \<Rightarrow> bool" where
  "isspace c =
     (let n = (of_char c :: nat)
      in (9 \<le> n \<and> n \<le> 13) \<or> (28 \<le> n \<and> n \<le> 32) \<or> n = 133 \<or> n = 160)"

definition strip :: "string \<Rightarrow> string" where
  "strip s = rev (dropWhile isspace (rev (dropWhile isspace s)))"

text \<open>\<open>sep.join(xs)\<close>.\<close>

fun join :: "string \<Rightarrow> string list \<Rightarrow> string" where
  "join sep [] = []"
| "join sep [x] = x"
| "join sep (x # y # ys) = x @ sep @ join sep (y # ys)"

text \<open>
  The decimal digits that \<open>\d\<close> matches; below code point 256 these are \<open>0\<close>..\<open>9\<close>.
  \<open>int(s)\<close> on a non-empty string of such digits is its decimal value (Python
  integers are unbounded).
\<close>

definition isdigit :: "char \<Rightarrow> bool" where
  "isdigit c = (let n = (of_char c :: nat) in 48 \<le> n \<and> n \<le> 57)"

definition int_of_digits :: "string \<Rightarrow> int" where
  "int_of_digits ds = foldl (\<lambda>a c. 10 * a + (int (of_char c) - 48)) 0 ds"

section \<open>Regular expressions of the source\<close>

text \<open>
  \<open>re.match(r"PT(\d+)H", s)\<close>: anchored at the start of \<open>s\<close>; the literal \<open>PT\<close>, then
  one or more digits, then the literal \<open>H\<close>. \<open>\d+\<close> is greedy, and giving back a
  digit can never help, since the character after a shorter run is a digit and not
  \<open>H\<close>; so the match exists exactly when the longest digit run after \<open>PT\<close> is
  non-empty and followed by \<open>H\<close>. The result is group 1, the digit run.
\<close>

fun re_match_PT_H :: "string \<Rightarrow> string option" where
  "re_match_PT_H (p # t # rest) =
     (if p = CHR ''P'' \<and> t = CHR ''T'' then
        (let ds = takeWhile isdigit rest; tl = dropWhile isdigit rest
         in (case tl of
               [] \<Rightarrow> None
             | h # _ \<Rightarrow> if ds \<noteq> [] \<and> h = CHR ''H'' then Some ds else None))
      else None)"
| "re_match_PT_H _ = None"

text \<open>
  \<open>re.search(r"url\((.*?)\)", s)\<close>: the leftmost position at which the pattern
  matches. At one position the pattern needs the literal \<open>url(\<close>, then the lazy
  group \<open>.*?\<close>, which grows one character at a time over anything but a newline
  until the next character is \<open>)\<close>: the group is the text up to the first \<open>)\<close>,
  and there is no match at this position when a newline or the end of the string
  comes before any \<open>)\<close>. The result is group 1.
\<close>

definition match_url_at :: "string \<Rightarrow> string option" where
  "match_url_at s =
     (if take 4 s = ''url('' then
        (let rest = drop 4 s;
             g = takeWhile (\<lambda>c. c \<noteq> CHR '')'' \<and> c \<noteq> CHR 0x0A) rest;
             tl = dropWhile (\<lambda>c. c \<noteq> CHR '')'' \<and> c \<noteq> CHR 0x0A) rest
         in (case tl of
               [] \<Rightarrow> None
             | c # _ \<Rightarrow> if c = CHR '')'' then Some g else None))
      else None)"

fun re_search_url :: "string \<Rightarrow> string option" where
  "re_search_url [] = None"
| "re_search_url (c # cs) =
     (case match_url_at (c # cs) of
        Some g \<Rightarrow> Some g
      | None \<Rightarrow> re_search_url cs)"

section \<open>The parsed document\<close>

text \<open>
  The HTML parser and the selector engine are libraries (\<open>BeautifulSoup\<close> with
  \<open>html.parser\<close>). A document is modelled after parsing, as the tree the parser
  builds: text nodes and tags with a name, attributes and children.
\<close>

datatype node =
    NavigableString string
  | Tag string "(string \<times> string) list" "node list"

fun contents :: "node \<Rightarrow> node list" where
  "contents (Tag n as cs) = cs"
| "contents (NavigableString s) = []"

text \<open>\<open>tag.get(key)\<close>: the attribute's value, or \<open>None\<close>.\<close>

fun get_attr :: "node \<Rightarrow> string \<Rightarrow> string option" where
  "get_attr (Tag n as cs) k = map_of as k"
| "get_attr (NavigableString s) k = None"

text \<open>
  An element handle is a node together with its ancestors, nearest first: a CSS
  selector with a descendant combinator looks at the ancestors of a candidate all the
  way up the document, also above the element on which \<open>select\<close> was called.
\<close>

type_synonym element = "node list \<times> node"

text \<open>The \<open>BeautifulSoup\<close> object: the root of a document with the given top-level nodes.\<close>

definition BeautifulSoup :: "node list \<Rightarrow> element" where
  "BeautifulSoup nodes = ([], Tag ''[document]'' [] nodes)"

text \<open>All proper descendants of a node in document order, each with its ancestors.\<close>

fun descendants :: "node list \<Rightarrow> node \<Rightarrow> element list" where
  "descendants anc (NavigableString s) = []"
| "descendants anc (Tag n as cs) =
     concat (map (\<lambda>c. (Tag n as cs # anc, c) # descendants (Tag n as cs # anc) c) cs)"

text \<open>
  A compound selector: an optional type selector, an optional \<open>#id\<close>, the classes of
  its \<open>.class\<close> parts and the pairs of its \<open>[attr='value']\<close> parts. A selector is a
  list of compound selectors joined by the descendant combinator.
\<close>

datatype compound =
  Compound (sel_tag: "string option") (sel_id: "string option")
    (sel_classes: "string list") (sel_attrs: "(string \<times> string) list")

type_synonym selector = "compound list"

text \<open>The whitespace-separated tokens of a \<open>class\<close> attribute.\<close>

fun split_ws :: "string \<Rightarrow> string \<Rightarrow> string list" where
  "split_ws cur [] = (if cur = [] then [] else [cur])"
| "split_ws cur (c # cs) =
     (if isspace c then (if cur = [] then split_ws [] cs else cur # split_ws [] cs)
      else split_ws (cur @ [c]) cs)"

fun match_compound :: "compound \<Rightarrow> node \<Rightarrow> bool" where
  "match_compound c (NavigableString s) = False"
| "match_compound c (Tag n as cs) =
     ((case sel_tag c of None \<Rightarrow> True | Some t \<Rightarrow> t = n) \<and>
      (case sel_id c of None \<Rightarrow> True | Some i \<Rightarrow> map_of as ''id'' = Some i) \<and>
      list_all (\<lambda>k. case map_of as ''class'' of
                      None \<Rightarrow> False
                    | Some v \<Rightarrow> k \<in> set (split_ws [] v)) (sel_classes c) \<and>
      list_all (\<lambda>(k, v). map_of as k = Some v) (sel_attrs c))"

text \<open>
  The remaining compound selectors, innermost first, against the ancestors, nearest
  first. For descendant combinators the nearest matching ancestor can always be taken.
\<close>

fun match_ancestors :: "compound list \<Rightarrow> node list \<Rightarrow> bool" where
  "match_ancestors [] anc = True"
| "match_ancestors (c # cs) [] = False"
| "match_ancestors (c # cs) (a # anc) =
     (if match_compound c a then match_ancestors cs anc
      else match_ancestors (c # cs) anc)"

definition matches :: "selector \<Rightarrow> element \<Rightarrow> bool" where
  "matches sel el =
     (case rev sel of
        [] \<Rightarrow> False
      | c # cs \<Rightarrow> match_compound c (snd el) \<and> match_ancestors cs (fst el))"

text \<open>\<open>tag.select(sel)\<close> and \<open>tag.select_one(sel)\<close>.\<close>

definition select :: "selector \<Rightarrow> element \<Rightarrow> element list" where
  "select sel el = filter (matches sel) (descendants (fst el) (snd el))"

definition select_one :: "selector \<Rightarrow> element \<Rightarrow> element option" where
  "select_one sel el = (case select sel el of [] \<Rightarrow> None | x # _ \<Rightarrow> Some x)"

text \<open>
  \<open>tag.get_text(separator, strip=True)\<close>: the text nodes below the tag in document
  order, each stripped, the empty ones dropped, joined by the separator.
\<close>

fun all_strings :: "node \<Rightarrow> string list" where
  "all_strings (NavigableString s) = [s]"
| "all_strings (Tag n as cs) = concat (map all_strings cs)"

definition get_text :: "string \<Rightarrow> element \<Rightarrow> string" where
  "get_text separator el =
     join separator (filter (\<lambda>s. s \<noteq> []) (map strip (all_strings (snd el))))"

text \<open>\<open>tag.find(name)\<close>: the first descendant tag of that name.\<close>

fun has_name :: "string \<Rightarrow> node \<Rightarrow> bool" where
  "has_name k (Tag n as cs) = (n = k)"
| "has_name k (NavigableString s) = False"

definition find_tag :: "string \<Rightarrow> node \<Rightarrow> node option" where
  "find_tag k nd =
     (case filter (has_name k) (map snd (descendants [] nd)) of
        [] \<Rightarrow> None
      | x # _ \<Rightarrow> Some x)"

text \<open>\<open>tag()\<close> is \<open>tag.find_all()\<close>: every descendant tag.\<close>

fun is_tag :: "node \<Rightarrow> bool" where
  "is_tag (Tag n as cs) = True"
| "is_tag (NavigableString s) = False"

definition find_all :: "node \<Rightarrow> node list" where
  "find_all nd = filter is_tag (map snd (descendants [] nd))"

section \<open>Schemas\<close>

record SeriesMetadata =
  series :: string
  sequence :: "string option"

record BookMetadata =
  title :: string
  subtitle :: "string option"
  author :: "string option"
  narrator :: "string option"
  publisher :: "string option"
  publishedYear :: "string option"
  description :: "string option"
  cover :: "string option"
  isbn :: "string option"
  asin :: "string option"
  genres :: "string list option"
  tags :: "string list option"
  series :: "SeriesMetadata list option"
  language :: "string option"
  duration :: "int option"

text \<open>
  The exceptions the program can raise. \<open>HTTPException\<close> carries its status code and
  detail; \<open>RequestError\<close> stands for any exception of the HTTP client (connection
  failure, timeout, invalid URL).
\<close>

datatype exn =
    HTTPException int string
  | AttributeError
  | TypeError
  | KeyError string
  | IndexError
  | ValidationError
  | RequestError

section \<open>Settings from the environment\<close>

text \<open>
  The process: its environment, which can change while it runs, and the three module
  globals, assigned once when the module is loaded.
\<close>

record process =
  environ :: "string \<rightharpoonup> string"
  COOKIE_DLE_USER_ID :: "string option"
  COOKIE_DLE_PASSWORD :: "string option"
  COOKIE_PHPSESSID :: "string option"

definition getenv :: "(string \<rightharpoonup> string) \<Rightarrow> string \<Rightarrow> string option" where
  "getenv env k = env k"

text \<open>Loading the module in a process with environment \<open>env\<close> (lines 41 to 43).\<close>

definition load_module :: "(string \<rightharpoonup> string) \<Rightarrow> process" where
  "load_module env =
     \<lparr>environ = env,
      COOKIE_DLE_USER_ID = getenv env ''DLE_USER_ID'',
      COOKIE_DLE_PASSWORD = getenv env ''DLE_PASSWORD'',
      COOKIE_PHPSESSID = getenv env ''PHPSESSID''\<rparr>"

text \<open>Truth value of an \<open>Optional[str]\<close>: \<open>None\<close> and the empty string are false.\<close>

definition truthy :: "string option \<Rightarrow> bool" where
  "truthy v = (case v of None \<Rightarrow> False | Some s \<Rightarrow> s \<noteq> [])"

type_synonym cookies = "(string \<times> string option) list"

definition get_auth_cookies :: "process \<Rightarrow> exn + cookies" where
  "get_auth_cookies p =
     (if \<not> list_all truthy [COOKIE_DLE_USER_ID p, COOKIE_DLE_PASSWORD p, COOKIE_PHPSESSID p]
      then Inl (HTTPException 401 ''Missing required authentication environment variables'')
      else Inr [(''dle_user_id'', COOKIE_DLE_USER_ID p),
                (''dle_password'', COOKIE_DLE_PASSWORD p),
                (''PHPSESSID'', COOKIE_PHPSESSID p)])"

section \<open>Parsing utilities\<close>

text \<open>The selectors of \<open>fetch_and_parse_book\<close> and \<open>perform_search\<close>.\<close>

definition sel_book :: selector where
  \<comment> \<open>\<open>article[itemtype='http://schema.org/Book']\<close>\<close>
  "sel_book = [Compound (Some ''article'') None [] [(''itemtype'', ''http://schema.org/Book'')]]"

definition sel_title :: selector where
  \<comment> \<open>\<open>h1.title\<close>\<close>
  "sel_title = [Compound (Some ''h1'') None [''title''] []]"

definition sel_subtitle :: selector where
  \<comment> \<open>\<open>span.subtitle\<close>\<close>
  "sel_subtitle = [Compound (Some ''span'') None [''subtitle''] []]"

definition sel_description :: selector where
  \<comment> \<open>\<open>[itemprop='description']\<close>\<close>
  "sel_description = [Compound None None [] [(''itemprop'', ''description'')]]"

definition sel_cover :: selector where
  \<comment> \<open>\<open>.poster figure.cover\<close>\<close>
  "sel_cover = [Compound None None [''poster''] [], Compound (Some ''figure'') None [''cover''] []]"

definition sel_published :: selector where
  \<comment> \<open>\<open>[itemprop='dateCreated']\<close>\<close>
  "sel_published = [Compound None None [] [(''itemprop'', ''dateCreated'')]]"

definition sel_lang :: selector where
  \<comment> \<open>\<open>[itemprop='locationCreated']\<close>\<close>
  "sel_lang = [Compound None None [] [(''itemprop'', ''locationCreated'')]]"

definition sel_publishers :: selector where
  \<comment> \<open>\<open>span.publishers_list span a\<close>\<close>
  "sel_publishers =
     [Compound (Some ''span'') None [''publishers_list''] [],
      Compound (Some ''span'') None [] [],
      Compound (Some ''a'') None [] []]"

definition sel_genres :: selector where
  \<comment> \<open>\<open>#mc-fs-genre a\<close>\<close>
  "sel_genres = [Compound None (Some ''mc-fs-genre'') [] [], Compound (Some ''a'') None [] []]"

definition sel_keywords :: selector where
  \<comment> \<open>\<open>[itemprop='keywords'] a\<close>\<close>
  "sel_keywords =
     [Compound None None [] [(''itemprop'', ''keywords'')], Compound (Some ''a'') None [] []]"

definition sel_duration :: selector where
  \<comment> \<open>\<open>[itemprop='timeRequired']\<close>\<close>
  "sel_duration = [Compound None None [] [(''itemprop'', ''timeRequired'')]]"

definition sel_articles :: selector where
  \<comment> \<open>\<open>#dle-content article.block.story.shortstory.mod-poster\<close>\<close>
  "sel_articles =
     [Compound None (Some ''dle-content'') [] [],
      Compound (Some ''article'') None [''block'', ''story'', ''shortstory'', ''mod-poster''] []]"

definition sel_link :: selector where
  \<comment> \<open>\<open>h2.title a\<close>\<close>
  "sel_link = [Compound (Some ''h2'') None [''title''] [], Compound (Some ''a'') None [] []]"

text \<open>
  \<open>x.strip()\<close> for \<open>x = contents[0]\<close> (line 67). On a text node it is \<open>str.strip\<close>. On
  a tag, the attribute \<open>strip\<close> is looked up as \<open>x.find("strip")\<close>: calling the
  \<open>None\<close> it normally returns raises \<open>TypeError\<close>, and calling a tag found is
  \<open>find_all()\<close>, whose list is then the title.
\<close>

datatype pyvalue = PyStr string | PyResultSet "node list"

fun call_strip :: "node \<Rightarrow> exn + pyvalue" where
  "call_strip (NavigableString s) = Inr (PyStr (strip s))"
| "call_strip (Tag n as cs) =
     (case find_tag ''strip'' (Tag n as cs) of
        None \<Rightarrow> Inl TypeError
      | Some f \<Rightarrow> Inr (PyResultSet (find_all f)))"

text \<open>Lines 90 to 95, from the value of \<open>duration_meta.get("content")\<close> on.\<close>

definition duration_of_content :: "string option \<Rightarrow> int option" where
  "duration_of_content content =
     (case content of
        None \<Rightarrow> None
      | Some c \<Rightarrow>
          if c = [] then None
          else (case re_match_PT_H c of
                  None \<Rightarrow> None
                | Some g \<Rightarrow> Some (int_of_digits g * 3600)))"

text \<open>
  Lines 64 to 108 of \<open>fetch_and_parse_book\<close>: from the parsed response body to the
  record. Every subscript or attribute access on \<open>None\<close>, a missing key and an empty
  \<open>contents\<close> raise, in the order of the source. The model validation of
  \<open>BookMetadata(...)\<close> rejects a title that is not a string.
\<close>

definition parse_book_page :: "element \<Rightarrow> exn + BookMetadata" where
  "parse_book_page soup =
     (case select_one sel_book soup of
        None \<Rightarrow> Inl AttributeError
      | Some block \<Rightarrow>
     (case select_one sel_title block of
        None \<Rightarrow> Inl AttributeError
      | Some h1 \<Rightarrow>
     (case contents (snd h1) of
        [] \<Rightarrow> Inl IndexError
      | first # _ \<Rightarrow>
     (case call_strip first of
        Inl e \<Rightarrow> Inl e
      | Inr title_value \<Rightarrow>
     (let subtitle_value = map_option (get_text []) (select_one sel_subtitle block);
          description_value =
            map_option (get_text [CHR 0x0A]) (select_one sel_description block)
      in
     (case select_one sel_cover block of
        None \<Rightarrow> Inl TypeError
      | Some figure \<Rightarrow>
     (case get_attr (snd figure) ''style'' of
        None \<Rightarrow> Inl (KeyError ''style'')
      | Some cover_style \<Rightarrow>
     (let cover_value = re_search_url cover_style;
          published_value = map_option (get_text []) (select_one sel_published block);
          language_value = map_option (get_text []) (select_one sel_lang block);
          publisher_tags = select sel_publishers block;
          publisher_value =
            (if publisher_tags \<noteq> [] then Some (join '', '' (map (get_text []) publisher_tags))
             else None);
          genres_value = map (get_text []) (select sel_genres block);
          tags_value = map (get_text []) (select sel_keywords block);
          duration_value =
            (case select_one sel_duration block of
               None \<Rightarrow> None
             | Some duration_meta \<Rightarrow> duration_of_content (get_attr (snd duration_meta) ''content''))
      in
     (case title_value of
        PyResultSet found \<Rightarrow> Inl ValidationError
      | PyStr t \<Rightarrow>
          Inr \<lparr>title = t, subtitle = subtitle_value, author = None, narrator = None,
               publisher = publisher_value, publishedYear = published_value,
               description = description_value, cover = cover_value, isbn = None,
               asin = None, genres = Some genres_value, tags = Some tags_value,
               series = Some [], language = language_value,
               duration = duration_value\<rparr>)))))))))"

section \<open>The remote site\<close>

text \<open>
  A response of the HTTP client: the status code, and the body as the parser reads it
  (the top-level nodes of \<open>BeautifulSoup(response.text, "html.parser")\<close>).
\<close>

record response =
  status_code :: int
  parsed_text :: "node list"

datatype request =
    POST string "(string \<times> string) list" cookies "(string \<times> string) list"
  | GET string cookies

text \<open>
  The remote site answers a request with a response, or the client raises; the answer
  may depend on every request sent before. The log of the requests sent so far is the
  state that the program's network calls thread through.
\<close>

type_synonym remote = "request list \<Rightarrow> request \<Rightarrow> exn + response"

definition send :: "remote \<Rightarrow> request \<Rightarrow> request list \<Rightarrow> (exn + response) \<times> request list" where
  "send site req log = (site log req, log @ [req])"

definition fetch_and_parse_book ::
  "remote \<Rightarrow> string \<Rightarrow> cookies \<Rightarrow> request list \<Rightarrow> (exn + BookMetadata) \<times> request list" where
  "fetch_and_parse_book site url cks log =
     (case send site (GET url cks) log of
        (Inl e, log') \<Rightarrow> (Inl e, log')
      | (Inr resp, log') \<Rightarrow>
          if status_code resp \<noteq> 200
          then (Inl (HTTPException 500 (''Failed to fetch book page: '' @ url)), log')
          else (parse_book_page (BeautifulSoup (parsed_text resp)), log'))"

section \<open>Search\<close>

text \<open>
  Line 133: the \<open>href\<close> of the title anchor of every article that has one. The
  subscript raises \<open>KeyError\<close> on an anchor without \<open>href\<close>.
\<close>

fun harvest_links :: "element list \<Rightarrow> exn + string list" where
  "harvest_links [] = Inr []"
| "harvest_links (a # articles) =
     (case select_one sel_link a of
        None \<Rightarrow> harvest_links articles
      | Some anchor \<Rightarrow>
          (case get_attr (snd anchor) ''href'' of
             None \<Rightarrow> Inl (KeyError ''href'')
           | Some h \<Rightarrow>
               (case harvest_links articles of
                  Inl e \<Rightarrow> Inl e
                | Inr hs \<Rightarrow> Inr (h # hs))))"

text \<open>
  Lines 135 to 142: the loop over the links. \<open>except Exception: continue\<close> drops
  whatever \<open>fetch_and_parse_book\<close> raised.
\<close>

fun fetch_links ::
  "remote \<Rightarrow> cookies \<Rightarrow> string list \<Rightarrow> BookMetadata list \<Rightarrow> request list
     \<Rightarrow> BookMetadata list \<times> request list" where
  "fetch_links site cks [] results log = (results, log)"
| "fetch_links site cks (link # links) results log =
     (case fetch_and_parse_book site link cks log of
        (Inr book, log') \<Rightarrow> fetch_links site cks links (results @ [book]) log'
      | (Inl e, log') \<Rightarrow> fetch_links site cks links results log')"

definition search_data :: "string \<Rightarrow> (string \<times> string) list" where
  "search_data query = [(''story'', query), (''do'', ''search''), (''subaction'', ''search'')]"

definition search_headers :: "(string \<times> string) list" where
  "search_headers =
     [(''Content-Type'', ''application/x-www-form-urlencoded''),
      (''Accept'', ''text/html,application/xhtml+xml,application/xml;q=0.9,image/avif,image/webp,*/*;q=0.8''),
      (''Origin'', ''https://ranobes.com''),
      (''Referer'', ''https://ranobes.com/''),
      (''User-Agent'', ''Mozilla/5.0 (Windows NT 10.0; Win64; x64) AppleWebKit/537.36 (KHTML, like Gecko) Chrome/136.0.0.0 Safari/537.36'')]"

definition perform_search ::
  "remote \<Rightarrow> string \<Rightarrow> cookies \<Rightarrow> request list
     \<Rightarrow> (exn + BookMetadata list) \<times> request list" where
  "perform_search site query cks log =
     (case send site (POST ''https://ranobes.com/index.php'' (search_data query) cks
                        search_headers) log of
        (Inl e, log') \<Rightarrow> (Inl e, log')
      | (Inr resp, log') \<Rightarrow>
          if status_code resp \<noteq> 200
          then (Inl (HTTPException 500 ''Failed to search ranobes.com''), log')
          else (case harvest_links (select sel_articles (BeautifulSoup (parsed_text resp))) of
                  Inl e \<Rightarrow> (Inl e, log')
                | Inr links \<Rightarrow>
                    (case fetch_links site cks links [] log' of
                       (results, log'') \<Rightarrow> (Inr results, log''))))"

section \<open>Endpoint\<close>

text \<open>The handler of \<open>GET /search\<close>; its result is the dictionary \<open>{"matches": books}\<close>.\<close>

definition search ::
  "process \<Rightarrow> remote \<Rightarrow> string \<Rightarrow> request list
     \<Rightarrow> (exn + (string \<times> BookMetadata list) list) \<times> request list" where
  "search p site query log =
     (case get_auth_cookies p of
        Inl e \<Rightarrow> (Inl e, log)
      | Inr cks \<Rightarrow>
          (case perform_search site query cks log of
             (Inl e, log') \<Rightarrow> (Inl e, log')
           | (Inr books, log') \<Rightarrow> (Inr [(''matches'', books)], log')))"

section \<open>Notions used in the properties\<close>


text \<open>
  The outcome of each detail fetch of a run over the links, in the order of the links,
  and the records among outcomes.
\<close>

fun detail_outcomes ::
  "remote \<Rightarrow> cookies \<Rightarrow> string list \<Rightarrow> request list \<Rightarrow> (exn + BookMetadata) list" where
  "detail_outcomes site cks [] log = []"
| "detail_outcomes site cks (link # links) log =
     (case fetch_and_parse_book site link cks log of
        (r, log') \<Rightarrow> r # detail_outcomes site cks links log')"

fun successes :: "(exn + 'a) list \<Rightarrow> 'a list" where
  "successes [] = []"
| "successes (Inr b # rs) = b # successes rs"
| "successes (Inl e # rs) = successes rs"

fun is_GET :: "request \<Rightarrow> bool" where
  "is_GET (GET url cks) = True"
| "is_GET (POST url d cks h) = False"

section \<open>Example documents and sites\<close>

definition book_article :: "node list \<Rightarrow> node" where
  "book_article cs = Tag ''article'' [(''itemtype'', ''http://schema.org/Book'')] cs"

definition h1_title :: "node list \<Rightarrow> node" where
  "h1_title cs = Tag ''h1'' [(''class'', ''title'')] cs"

definition poster :: "(string \<times> string) list \<Rightarrow> node" where
  "poster style_attr =
     Tag ''div'' [(''class'', ''r-fullstory-poster poster'')]
       [Tag ''figure'' ((''class'', ''cover'') # style_attr) []]"

text \<open>A page with the container, the title and the cover, and nothing else.\<close>

definition plain_article :: "string \<Rightarrow> string \<Rightarrow> node" where
  "plain_article t st = book_article [h1_title [NavigableString t], poster [(''style'', st)]]"

definition page_plain :: "string \<Rightarrow> string \<Rightarrow> node list" where
  "page_plain t st = [plain_article t st]"

text \<open>Its container, its title heading and its cover element, as \<open>select_one\<close> returns them.\<close>

definition plain_block :: "string \<Rightarrow> string \<Rightarrow> element" where
  "plain_block t st = ([snd (BeautifulSoup (page_plain t st))], plain_article t st)"



text \<open>The container and the title, no cover element.\<close>

definition page_no_cover :: "node list" where
  "page_no_cover = [book_article [h1_title [NavigableString ''Overlord'']]]"

text \<open>The cover element without a \<open>style\<close> attribute.\<close>

definition page_no_style :: "node list" where
  "page_no_style = [book_article [h1_title [NavigableString ''Overlord''], poster []]]"

text \<open>No container; and the container without the title heading.\<close>

definition page_no_root :: "node list" where
  "page_no_root = [Tag ''div'' [] [h1_title [NavigableString ''Overlord'']]]"

definition no_title_article :: node where
  "no_title_article = book_article [poster [(''style'', ''background-image: url(/c.jpg);'')]]"

definition page_no_title :: "node list" where
  "page_no_title = [no_title_article]"

definition no_title_block :: element where
  "no_title_block = ([snd (BeautifulSoup page_no_title)], no_title_article)"


text \<open>A page with every fragment, the container below \<open>html\<close> and \<open>body\<close>.\<close>

definition full_article :: node where
  "full_article =
     book_article
       [h1_title [NavigableString '' Overlord '',
                  Tag ''span'' [(''class'', ''subtitle'')] [NavigableString ''Vol. 1'']],
        poster [(''style'', ''background-image: url(/c.jpg);'')],
        Tag ''div'' [(''itemprop'', ''description'')]
          [Tag ''p'' [] [NavigableString '' one ''], Tag ''p'' [] [NavigableString ''two'']],
        Tag ''span'' [(''itemprop'', ''dateCreated'')] [NavigableString ''2012''],
        Tag ''span'' [(''itemprop'', ''locationCreated'')] [NavigableString ''Japanese''],
        Tag ''span'' [(''class'', ''publishers_list'')]
          [Tag ''span'' [] [Tag ''a'' [] [NavigableString ''Acme'']],
           Tag ''span'' [] [Tag ''a'' [] [NavigableString ''Beta'']]],
        Tag ''div'' [(''id'', ''mc-fs-genre'')]
          [Tag ''a'' [] [NavigableString ''Fantasy''],
           Tag ''a'' [] [NavigableString ''Drama'']],
        Tag ''div'' [(''itemprop'', ''keywords'')] [Tag ''a'' [] [NavigableString ''magic'']],
        Tag ''meta'' [(''itemprop'', ''timeRequired''), (''content'', ''PT5H30M'')] []]"

definition page_full :: "node list" where
  "page_full = [Tag ''html'' [] [Tag ''body'' [] [full_article]]]"

definition full_block :: element where
  "full_block =
     ([Tag ''body'' [] [full_article], Tag ''html'' [] [Tag ''body'' [] [full_article]],
       snd (BeautifulSoup page_full)],
      full_article)"

definition full_record :: BookMetadata where
  "full_record =
     \<lparr>title = ''Overlord'', subtitle = Some ''Vol. 1'', author = None, narrator = None,
      publisher = Some ''Acme, Beta'', publishedYear = Some ''2012'',
      description = Some (''one'' @ [CHR 0x0A] @ ''two''), cover = Some ''/c.jpg'',
      isbn = None, asin = None, genres = Some [''Fantasy'', ''Drama''],
      tags = Some [''magic''], series = Some [], language = Some ''Japanese'',
      duration = Some 18000\<rparr>"

text \<open>A listing page with one article for each of the given links.\<close>

definition listing_article :: "string \<Rightarrow> node" where
  "listing_article href =
     Tag ''article'' [(''class'', ''block story shortstory mod-poster'')]
       [Tag ''h2'' [(''class'', ''title'')] [Tag ''a'' [(''href'', href)] [NavigableString ''t'']]]"

definition listing_page :: "string list \<Rightarrow> node list" where
  "listing_page hrefs = [Tag ''div'' [(''id'', ''dle-content'')] (map listing_article hrefs)]"

text \<open>
  A site whose listing has three links; the second detail page answers 404, the others
  are plain pages.
\<close>

definition site3 :: remote where
  "site3 log req =
     (case req of
        POST url d cks h \<Rightarrow>
          Inr \<lparr>status_code = 200, parsed_text = listing_page [''/a'', ''/b'', ''/c'']\<rparr>
      | GET url cks \<Rightarrow>
          if url = ''/a'' then Inr \<lparr>status_code = 200, parsed_text = page_plain ''A'' ''url(a.jpg)''\<rparr>
          else if url = ''/c'' then Inr \<lparr>status_code = 200, parsed_text = page_plain ''C'' ''url(c.jpg)''\<rparr>
          else Inr \<lparr>status_code = 404, parsed_text = []\<rparr>)"

text \<open>A site whose search endpoint answers 503.\<close>

definition site_down :: remote where
  "site_down log req = Inr \<lparr>status_code = 503, parsed_text = []\<rparr>"

definition cookies3 :: cookies where
  "cookies3 = [(''dle_user_id'', Some ''1''), (''dle_password'', Some ''x''), (''PHPSESSID'', Some ''s'')]"

definition env_full :: "string \<rightharpoonup> string" where
  "env_full = [''DLE_USER_ID'' \<mapsto> ''1'', ''DLE_PASSWORD'' \<mapsto> ''x'', ''PHPSESSID'' \<mapsto> ''s'']"

definition plain_record :: "string \<Rightarrow> string option \<Rightarrow> BookMetadata" where
  "plain_record t c =
     \<lparr>title = t, subtitle = None, author = None, narrator = None, publisher = None,
      publishedYear = None, description = None, cover = c, isbn = None, asin = None,
      genres = Some [], tags = Some [], series = Some [], language = None,
      duration = None\<rparr>"

text \<open>
  A process started with an empty environment, in which the three variables are set
  after the module was loaded.
\<close>

definition process_late :: process where
  "process_late = (load_module Map.empty)\<lparr>environ := env_full\<rparr>"



section \<open>The two patterns\<close>







section \<open>The record of a page\<close>

lemma call_strip_PyStr:
  "call_strip x = Inr (PyStr t) \<Longrightarrow> \<exists>s. x = NavigableString s \<and> t = strip s"
  by (cases x) (auto split: option.splits)

lemma parse_book_page_InrD:
  assumes "parse_book_page soup = Inr r"
  shows "\<exists>block h1 s rest figure st.
           select_one sel_book soup = Some block \<and>
           select_one sel_title block = Some h1 \<and>
           contents (snd h1) = NavigableString s # rest \<and>
           select_one sel_cover block = Some figure \<and>
           get_attr (snd figure) ''style'' = Some st \<and>
           title r = strip s \<and>
           subtitle r = map_option (get_text []) (select_one sel_subtitle block) \<and>
           description r = map_option (get_text [CHR 0x0A]) (select_one sel_description block) \<and>
           cover r = re_search_url st \<and>
           publishedYear r = map_option (get_text []) (select_one sel_published block) \<and>
           language r = map_option (get_text []) (select_one sel_lang block) \<and>
           publisher r =
             (if select sel_publishers block \<noteq> []
              then Some (join '', '' (map (get_text []) (select sel_publishers block)))
              else None) \<and>
           genres r = Some (map (get_text []) (select sel_genres block)) \<and>
           tags r = Some (map (get_text []) (select sel_keywords block)) \<and>
           duration r =
             (case select_one sel_duration block of
                None \<Rightarrow> None
              | Some m \<Rightarrow> duration_of_content (get_attr (snd m) ''content'')) \<and>
           author r = None \<and> narrator r = None \<and> isbn r = None \<and> asin r = None \<and>
           series r = Some []"
proof -
  from assms obtain block where b: "select_one sel_book soup = Some block"
    by (auto simp: parse_book_page_def split: option.splits)
  from assms b obtain h1 where h: "select_one sel_title block = Some h1"
    by (auto simp: parse_book_page_def split: option.splits)
  from assms b h obtain x rest where c: "contents (snd h1) = x # rest"
    by (auto simp: parse_book_page_def split: list.splits)
  from assms b h c obtain tv where tv: "call_strip x = Inr tv"
    by (auto simp: parse_book_page_def split: sum.splits)
  from assms b h c tv obtain figure where f: "select_one sel_cover block = Some figure"
    by (auto simp: parse_book_page_def Let_def split: option.splits)
  from assms b h c tv f obtain st where st: "get_attr (snd figure) ''style'' = Some st"
    by (auto simp: parse_book_page_def Let_def split: option.splits)
  from assms b h c tv f st obtain t where t: "tv = PyStr t"
    by (auto simp: parse_book_page_def Let_def split: pyvalue.splits)
  from tv t obtain s where s: "x = NavigableString s" "t = strip s"
    using call_strip_PyStr by blast
  from assms b h c tv f st t have r:
    "r = \<lparr>title = t,
          subtitle = map_option (get_text []) (select_one sel_subtitle block),
          author = None, narrator = None,
          publisher =
            (if select sel_publishers block \<noteq> []
             then Some (join '', '' (map (get_text []) (select sel_publishers block)))
             else None),
          publishedYear = map_option (get_text []) (select_one sel_published block),
          description = map_option (get_text [CHR 0x0A]) (select_one sel_description block),
          cover = re_search_url st, isbn = None, asin = None,
          genres = Some (map (get_text []) (select sel_genres block)),
          tags = Some (map (get_text []) (select sel_keywords block)),
          series = Some [],
          language = map_option (get_text []) (select_one sel_lang block),
          duration =
            (case select_one sel_duration block of
               None \<Rightarrow> None
             | Some m \<Rightarrow> duration_of_content (get_attr (snd m) ''content''))\<rparr>"
    by (simp add: parse_book_page_def Let_def)
  show ?thesis
    apply (rule exI [of _ block], rule exI [of _ h1], rule exI [of _ s], rule exI [of _ rest],
           rule exI [of _ figure], rule exI [of _ st])
    using b h c f st s by (simp add: r)
qed


lemma parse_book_page_block:
  assumes "parse_book_page soup = Inr r" and "select_one sel_book soup = Some block"
  shows "\<exists>figure st.
           select_one sel_cover block = Some figure \<and>
           get_attr (snd figure) ''style'' = Some st \<and>
           cover r = re_search_url st \<and>
           publisher r =
             (if select sel_publishers block \<noteq> []
              then Some (join '', '' (map (get_text []) (select sel_publishers block)))
              else None)"
  using parse_book_page_InrD [OF assms(1)] assms(2) by auto

section \<open>The loop over the links\<close>

lemma fetch_and_parse_book_log:
  "snd (fetch_and_parse_book site url cks log) = log @ [GET url cks]"
  by (simp add: fetch_and_parse_book_def send_def split: sum.splits)

lemma fetch_links_eq:
  "fetch_links site cks links results log =
     (results @ successes (detail_outcomes site cks links log),
      log @ map (\<lambda>l. GET l cks) links)"
proof (induction links arbitrary: results log)
  case Nil
  show ?case by simp
next
  case (Cons link links)
  obtain r where f: "fetch_and_parse_book site link cks log = (r, log @ [GET link cks])"
    using fetch_and_parse_book_log [of site link cks log]
    by (cases "fetch_and_parse_book site link cks log") auto
  show ?case
  proof (cases r)
    case (Inl e)
    then show ?thesis using f Cons.IH by simp
  next
    case (Inr book)
    then show ?thesis using f Cons.IH by simp
  qed
qed


section \<open>Properties\<close>

text \<open>
  C1. When the listing request succeeds and its page yields the links \<open>links\<close>,
  \<open>perform_search\<close> returns, without an error, exactly the records of the detail
  fetches that succeeded, in the order of their links; one \<open>GET\<close> is sent for each
  link, in that order, whatever the earlier ones gave. A detail fetch whose status is
  not 200 raises, as does a failing extraction of a page with status 200, and what is
  raised leaves nothing in the result.
\<close>

theorem search_collects_successes:
  assumes "site log (POST ''https://ranobes.com/index.php'' (search_data query) cks
             search_headers) = Inr resp"
    and "status_code resp = 200"
    and "harvest_links (select sel_articles (BeautifulSoup (parsed_text resp))) = Inr links"
  shows "perform_search site query cks log =
           (Inr (successes (detail_outcomes site cks links
                   (log @ [POST ''https://ranobes.com/index.php'' (search_data query) cks
                             search_headers]))),
            log @ [POST ''https://ranobes.com/index.php'' (search_data query) cks
                     search_headers] @ map (\<lambda>l. GET l cks) links) \<and>
         (\<forall>link lg r. site lg (GET link cks) = Inr r \<and> status_code r \<noteq> 200 \<longrightarrow>
            fst (fetch_and_parse_book site link cks lg) =
              Inl (HTTPException 500 (''Failed to fetch book page: '' @ link))) \<and>
         (\<forall>link lg r. site lg (GET link cks) = Inr r \<and> status_code r = 200 \<longrightarrow>
            fst (fetch_and_parse_book site link cks lg) =
              parse_book_page (BeautifulSoup (parsed_text r)))"
  using assms
  by (simp add: perform_search_def send_def fetch_links_eq fetch_and_parse_book_def)

theorem search_collects_successes_witness:
  "site3 [] (POST ''https://ranobes.com/index.php'' (search_data ''q'') cookies3 search_headers)
     = Inr \<lparr>status_code = 200, parsed_text = listing_page [''/a'', ''/b'', ''/c'']\<rparr> \<and>
   harvest_links (select sel_articles (BeautifulSoup (listing_page [''/a'', ''/b'', ''/c''])))
     = Inr [''/a'', ''/b'', ''/c''] \<and>
   fst (fetch_and_parse_book site3 ''/b'' cookies3 []) =
     Inl (HTTPException 500 ''Failed to fetch book page: /b'') \<and>
   fst (perform_search site3 ''q'' cookies3 []) =
     Inr [plain_record ''A'' (Some ''a.jpg''), plain_record ''C'' (Some ''c.jpg'')]"
proof -
  let ?post = "POST ''https://ranobes.com/index.php'' (search_data ''q'') cookies3 search_headers"
  let ?resp = "\<lparr>status_code = 200, parsed_text = listing_page [''/a'', ''/b'', ''/c'']\<rparr>"
  have h1: "site3 [] ?post = Inr ?resp" by (simp add: site3_def)
  have h2: "status_code ?resp = 200" by simp
  have h3: "harvest_links (select sel_articles (BeautifulSoup (parsed_text ?resp)))
              = Inr [''/a'', ''/b'', ''/c'']" by code_simp
  have o: "successes (detail_outcomes site3 cookies3 [''/a'', ''/b'', ''/c''] ([] @ [?post]))
             = [plain_record ''A'' (Some ''a.jpg''), plain_record ''C'' (Some ''c.jpg'')]"
    by code_simp
  have b: "fst (fetch_and_parse_book site3 ''/b'' cookies3 []) =
     Inl (HTTPException 500 ''Failed to fetch book page: /b'')" by code_simp
  note w = search_collects_successes [of site3 "[]" "''q''" cookies3 ?resp "[''/a'', ''/b'', ''/c'']", OF h1 h2 h3]
  from w have "fst (perform_search site3 ''q'' cookies3 []) =
      Inr (successes (detail_outcomes site3 cookies3 [''/a'', ''/b'', ''/c''] ([] @ [?post])))"
    by simp
  then show ?thesis using h1 h3 o b by simp
qed

text \<open>
  C4. When the response to the listing request has a status other than 200,
  \<open>perform_search\<close> raises the \<open>HTTPException\<close> with status 500 and detail
  \<open>Failed to search ranobes.com\<close>; the listing request is the only request sent, so no
  detail page is fetched; and the endpoint raises the same exception.
\<close>

theorem listing_failure_is_terminal:
  assumes "site log (POST ''https://ranobes.com/index.php'' (search_data query) cks
             search_headers) = Inr resp"
    and "status_code resp \<noteq> 200"
  shows "perform_search site query cks log =
           (Inl (HTTPException 500 ''Failed to search ranobes.com''),
            log @ [POST ''https://ranobes.com/index.php'' (search_data query) cks
                     search_headers]) \<and>
         filter is_GET (snd (perform_search site query cks log)) = filter is_GET log \<and>
         (get_auth_cookies p = Inr cks \<longrightarrow>
            search p site query log =
              (Inl (HTTPException 500 ''Failed to search ranobes.com''),
               log @ [POST ''https://ranobes.com/index.php'' (search_data query) cks
                        search_headers]))"
  using assms by (simp add: perform_search_def send_def search_def)

theorem listing_failure_is_terminal_witness:
  "site_down [] (POST ''https://ranobes.com/index.php'' (search_data ''q'') cookies3
      search_headers) = Inr \<lparr>status_code = 503, parsed_text = []\<rparr> \<and>
   get_auth_cookies (load_module env_full) = Inr cookies3 \<and>
   filter is_GET (snd (perform_search site_down ''q'' cookies3 [])) = [] \<and>
   search (load_module env_full) site_down ''q'' [] =
     (Inl (HTTPException 500 ''Failed to search ranobes.com''),
      [POST ''https://ranobes.com/index.php'' (search_data ''q'') cookies3 search_headers])"
proof -
  have h1: "site_down [] (POST ''https://ranobes.com/index.php'' (search_data ''q'') cookies3
      search_headers) = Inr \<lparr>status_code = 503, parsed_text = []\<rparr>"
    by (simp add: site_down_def)
  have h2: "status_code \<lparr>status_code = 503, parsed_text = []\<rparr> \<noteq> 200" by simp
  have c: "get_auth_cookies (load_module env_full) = Inr cookies3" by code_simp
  show ?thesis
    using listing_failure_is_terminal [of site_down "[]" "''q''" cookies3
        "\<lparr>status_code = 503, parsed_text = []\<rparr>" "load_module env_full", OF h1 h2] h1 c
    by simp
qed

text \<open>
  C3. On a document in which the root book container is not found, the extraction
  raises (\<open>AttributeError\<close>, from the lookup on \<open>None\<close>) and returns no record; the
  same holds when the container is found and the title heading is not. This is the
  failure of one page that the specification names MalformedPage.
\<close>

theorem missing_root_or_title_raises:
  "(select_one sel_book soup = None \<longrightarrow> parse_book_page soup = Inl AttributeError) \<and>
   (select_one sel_book soup = Some block \<and> select_one sel_title block = None \<longrightarrow>
      parse_book_page soup = Inl AttributeError)"
  by (simp add: parse_book_page_def)

theorem missing_root_or_title_raises_witness:
  "select_one sel_book (BeautifulSoup page_no_root) = None \<and>
   parse_book_page (BeautifulSoup page_no_root) = Inl AttributeError \<and>
   select_one sel_book (BeautifulSoup page_no_title) = Some no_title_block \<and>
   select_one sel_title no_title_block = None \<and>
   parse_book_page (BeautifulSoup page_no_title) = Inl AttributeError"
proof -
  have a: "select_one sel_book (BeautifulSoup page_no_root) = None" by code_simp
  have b: "select_one sel_book (BeautifulSoup page_no_title) = Some no_title_block" by code_simp
  have c: "select_one sel_title no_title_block = None" by code_simp
  show ?thesis
    using missing_root_or_title_raises [of "BeautifulSoup page_no_root" no_title_block]
      missing_root_or_title_raises [of "BeautifulSoup page_no_title" no_title_block] a b c
    by simp
qed

text \<open>
  C2. A page with the container and the title heading and without the cover element
  gives no record: subscripting the \<open>None\<close> that \<open>select_one\<close> returns raises
  \<open>TypeError\<close>. With the cover element present and its \<open>style\<close> attribute missing,
  the subscript raises \<open>KeyError\<close>.
\<close>

theorem missing_cover_raises:
  "Option.bind (select_one sel_book (BeautifulSoup page_no_cover)) (select_one sel_title) \<noteq> None \<and>
   Option.bind (select_one sel_book (BeautifulSoup page_no_cover)) (select_one sel_cover) = None \<and>
   parse_book_page (BeautifulSoup page_no_cover) = Inl TypeError \<and>
   Option.bind (select_one sel_book (BeautifulSoup page_no_style)) (select_one sel_title) \<noteq> None \<and>
   parse_book_page (BeautifulSoup page_no_style) = Inl (KeyError ''style'')"
  by code_simp

text \<open>
  C5. \<open>get_auth_cookies\<close> raises the \<open>HTTPException\<close> with status 401 exactly when one
  of the three values is \<open>None\<close> or the empty string, and it raises nothing else. When
  it raises, the endpoint raises the same exception and sends no request (the log is
  unchanged); so it does for a process loaded with none of the variables set.
\<close>

theorem credentials_all_or_nothing:
  "(get_auth_cookies p =
      Inl (HTTPException 401 ''Missing required authentication environment variables'')) =
     (COOKIE_DLE_USER_ID p = None \<or> COOKIE_DLE_USER_ID p = Some [] \<or>
      COOKIE_DLE_PASSWORD p = None \<or> COOKIE_DLE_PASSWORD p = Some [] \<or>
      COOKIE_PHPSESSID p = None \<or> COOKIE_PHPSESSID p = Some []) \<and>
   (\<forall>e. get_auth_cookies p = Inl e \<longrightarrow>
      e = HTTPException 401 ''Missing required authentication environment variables'') \<and>
   (get_auth_cookies p =
      Inl (HTTPException 401 ''Missing required authentication environment variables'') \<longrightarrow>
    search p site query log =
      (Inl (HTTPException 401 ''Missing required authentication environment variables''), log)) \<and>
   search (load_module Map.empty) site query log =
      (Inl (HTTPException 401 ''Missing required authentication environment variables''), log)"
proof -
  define U where "U = HTTPException 401 ''Missing required authentication environment variables''"
  have t: "\<And>v. truthy v = (v \<noteq> None \<and> v \<noteq> Some [])"
    by (simp add: truthy_def split: option.splits)
  have g: "get_auth_cookies p =
      (if truthy (COOKIE_DLE_USER_ID p) \<and> truthy (COOKIE_DLE_PASSWORD p) \<and>
          truthy (COOKIE_PHPSESSID p)
       then Inr [(''dle_user_id'', COOKIE_DLE_USER_ID p),
                 (''dle_password'', COOKIE_DLE_PASSWORD p),
                 (''PHPSESSID'', COOKIE_PHPSESSID p)]
       else Inl U)"
    by (simp add: get_auth_cookies_def U_def)
  have l: "get_auth_cookies (load_module Map.empty) = Inl U"
    by (simp add: get_auth_cookies_def load_module_def getenv_def truthy_def U_def)
  have s: "\<And>q. get_auth_cookies q = Inl U \<Longrightarrow> search q site query log = (Inl U, log)"
    by (simp add: search_def)
  have c1: "(get_auth_cookies p = Inl U) =
     (COOKIE_DLE_USER_ID p = None \<or> COOKIE_DLE_USER_ID p = Some [] \<or>
      COOKIE_DLE_PASSWORD p = None \<or> COOKIE_DLE_PASSWORD p = Some [] \<or>
      COOKIE_PHPSESSID p = None \<or> COOKIE_PHPSESSID p = Some [])"
    unfolding g t by auto
  have c2: "\<forall>e. get_auth_cookies p = Inl e \<longrightarrow> e = U"
    unfolding g by (auto split: if_splits)
  have "(get_auth_cookies p = Inl U) =
     (COOKIE_DLE_USER_ID p = None \<or> COOKIE_DLE_USER_ID p = Some [] \<or>
      COOKIE_DLE_PASSWORD p = None \<or> COOKIE_DLE_PASSWORD p = Some [] \<or>
      COOKIE_PHPSESSID p = None \<or> COOKIE_PHPSESSID p = Some []) \<and>
    (\<forall>e. get_auth_cookies p = Inl e \<longrightarrow> e = U) \<and>
    (get_auth_cookies p = Inl U \<longrightarrow> search p site query log = (Inl U, log)) \<and>
    search (load_module Map.empty) site query log = (Inl U, log)"
    using c1 c2 s [of p] s [OF l] by blast
  then show ?thesis unfolding U_def .
qed

theorem credentials_all_or_nothing_witness:
  "COOKIE_PHPSESSID (load_module (env_full(''PHPSESSID'' \<mapsto> []))) = Some [] \<and>
   get_auth_cookies (load_module (env_full(''PHPSESSID'' \<mapsto> []))) =
      Inl (HTTPException 401 ''Missing required authentication environment variables'') \<and>
   search (load_module (env_full(''PHPSESSID'' \<mapsto> []))) site3 ''q'' [] =
      (Inl (HTTPException 401 ''Missing required authentication environment variables''), [])"
proof -
  let ?p = "load_module (env_full(''PHPSESSID'' \<mapsto> []))"
  have a: "COOKIE_PHPSESSID ?p = Some []"
    by (simp add: load_module_def getenv_def)
  note w = credentials_all_or_nothing [of ?p site3 "''q''" "[]"]
  from w a have b: "get_auth_cookies ?p =
      Inl (HTTPException 401 ''Missing required authentication environment variables'')"
    by blast
  from w b have c: "search ?p site3 ''q'' [] =
      (Inl (HTTPException 401 ''Missing required authentication environment variables''), [])"
    by blast
  from a b c show ?thesis by blast
qed

text \<open>
  C9, as the code has it. The three values are read when the module is loaded. The
  endpoint does not read the environment: its result is the same whatever the
  environment is at the time of the request, and \<open>get_auth_cookies\<close> raises the 401
  exception exactly when one of the three variables was unset or empty in the
  environment the module was loaded with.
\<close>

theorem secrets_read_at_startup:
  "search (p\<lparr>environ := env\<rparr>) site query log = search p site query log \<and>
   (get_auth_cookies ((load_module env0)\<lparr>environ := env\<rparr>) =
      Inl (HTTPException 401 ''Missing required authentication environment variables'')) =
     (\<not> (truthy (getenv env0 ''DLE_USER_ID'') \<and> truthy (getenv env0 ''DLE_PASSWORD'') \<and>
         truthy (getenv env0 ''PHPSESSID'')))"
  by (simp add: search_def get_auth_cookies_def load_module_def)

text \<open>
  C9 as stated fails: in a process loaded with an empty environment, all three
  variables are set and non-empty at the time of the request, and the endpoint still
  raises the 401 exception.
\<close>

theorem secrets_read_at_startup_counterexample:
  "truthy (getenv (environ process_late) ''DLE_USER_ID'') \<and>
   truthy (getenv (environ process_late) ''DLE_PASSWORD'') \<and>
   truthy (getenv (environ process_late) ''PHPSESSID'') \<and>
   search process_late site3 ''q'' [] =
     (Inl (HTTPException 401 ''Missing required authentication environment variables''), [])"
  by code_simp



text \<open>
  C8. The publisher of a record is the texts of all anchors that
  \<open>span.publishers_list span a\<close> selects, in document order, joined with a comma and
  a space; with no such anchor the publisher is absent, not the empty string. Two
  anchors \<open>Acme\<close> and \<open>Beta\<close> give \<open>Acme, Beta\<close>.
\<close>

theorem publisher_joined:
  assumes "parse_book_page soup = Inr r" and "select_one sel_book soup = Some block"
  shows "publisher r =
           (if select sel_publishers block = [] then None
            else Some (join '', '' (map (get_text []) (select sel_publishers block)))) \<and>
         join '', '' [''Acme'', ''Beta''] = ''Acme, Beta''"
  using parse_book_page_block [OF assms] by auto

theorem publisher_joined_witness:
  "parse_book_page (BeautifulSoup page_full) = Inr full_record \<and>
   select_one sel_book (BeautifulSoup page_full) = Some full_block \<and>
   map (get_text []) (select sel_publishers full_block) = [''Acme'', ''Beta''] \<and>
   publisher full_record = Some ''Acme, Beta'' \<and>
   parse_book_page (BeautifulSoup (page_plain ''T'' ''x'')) = Inr (plain_record ''T'' None) \<and>
   select_one sel_book (BeautifulSoup (page_plain ''T'' ''x'')) = Some (plain_block ''T'' ''x'') \<and>
   select sel_publishers (plain_block ''T'' ''x'') = [] \<and>
   publisher (plain_record ''T'' None) = None"
proof -
  have a: "parse_book_page (BeautifulSoup page_full) = Inr full_record" by code_simp
  have b: "select_one sel_book (BeautifulSoup page_full) = Some full_block" by code_simp
  have c: "map (get_text []) (select sel_publishers full_block) = [''Acme'', ''Beta'']"
    by code_simp
  have d: "parse_book_page (BeautifulSoup (page_plain ''T'' ''x'')) = Inr (plain_record ''T'' None)"
    by code_simp
  have e: "select_one sel_book (BeautifulSoup (page_plain ''T'' ''x'')) = Some (plain_block ''T'' ''x'')"
    by code_simp
  have f: "select sel_publishers (plain_block ''T'' ''x'') = []" by code_simp
  have ne: "select sel_publishers full_block \<noteq> []" using c by auto
  have g: "publisher full_record = Some (join '', '' [''Acme'', ''Beta''])"
    using publisher_joined [OF a b] c ne by simp
  have h: "publisher (plain_record ''T'' None) = None"
    using publisher_joined [OF d e] f by simp
  have j: "join '', '' [''Acme'', ''Beta''] = ''Acme, Beta''" by simp
  from a b c d e f g h j show ?thesis by simp
qed






end
